theory Spec2Isabelle
  imports Complex_Main
begin

section \<open>Python values\<close>

text \<open>
  A Python \<open>str\<close> is a sequence of Unicode code points; it is modelled as a list of
  natural numbers, one per code point, so that \<open>str.strip\<close> and the line iteration of a
  text file see the same characters as the interpreter. \<open>py\<close> turns an ASCII literal
  into such a sequence.
\<close>

type_synonym pystr = "nat list"

definition py :: "string \<Rightarrow> pystr" where
  "py s = map of_char s"

text \<open>
  The values that \<open>json.loads\<close> can produce. An object is the resulting \<open>dict\<close>, given by
  its items in insertion order (the keys of a \<open>dict\<close> are distinct).
\<close>

datatype json =
    JNull
  | JBool bool
  | JInt int
  | JFloat real
  | JStr pystr
  | JArr "json list"
  | JObj "(pystr \<times> json) list"

text \<open>The exceptions that the modelled code can raise.\<close>

datatype error =
    JSONDecodeError
  | AttributeError
  | TypeError
  | IndexError
  | AssertionError
  | RuntimeError
  | OSError
  | EmbedderError

section \<open>Strings and lines\<close>

text \<open>
  \<open>str.isspace\<close> on one code point: the white space of CPython's Unicode database.
\<close>

definition is_space :: "nat \<Rightarrow> bool" where
  "is_space c \<longleftrightarrow>
     (9 \<le> c \<and> c \<le> 13) \<or> (28 \<le> c \<and> c \<le> 32) \<or> c = 133 \<or> c = 160 \<or> c = 5760
     \<or> (8192 \<le> c \<and> c \<le> 8202) \<or> c = 8232 \<or> c = 8233 \<or> c = 8239 \<or> c = 8287
     \<or> c = 12288"

text \<open>\<open>line.strip()\<close>: white space removed at both ends.\<close>

definition py_strip :: "pystr \<Rightarrow> pystr" where
  "py_strip s = rev (dropWhile is_space (rev (dropWhile is_space s)))"

text \<open>
  \<open>SOUL_FILE.open()\<close> opens the file in text mode with universal newlines: on reading,
  \<open>\r\n\<close> and a lone \<open>\r\<close> both arrive as \<open>\n\<close>.
\<close>

fun universal_newlines :: "pystr \<Rightarrow> pystr" where
  "universal_newlines [] = []"
| "universal_newlines [c] = (if c = 13 then [10] else [c])"
| "universal_newlines (c # c' # cs) =
     (if c = 13 then
        (if c' = 10 then 10 # universal_newlines cs
         else 10 # universal_newlines (c' # cs))
      else c # universal_newlines (c' # cs))"

text \<open>
  \<open>for line in f\<close>: every line ends with its \<open>\n\<close>, except a last line that the file
  leaves unterminated.
\<close>

fun py_lines :: "pystr \<Rightarrow> pystr list" where
  "py_lines [] = []"
| "py_lines (c # cs) =
     (if c = 10 then [10] # py_lines cs
      else (case py_lines cs of
              [] \<Rightarrow> [[c]]
            | l # ls \<Rightarrow> (c # l) # ls))"

section \<open>The JSON library\<close>

text \<open>
  \<open>json.loads\<close> is the standard library's parser. The functions below take it as the
  parameter \<open>loads\<close>: a document is mapped to its value or to the exception raised.

  \<open>json.dumps(entry, ensure_ascii=False)\<close> is only ever applied to the one-key dict
  \<open>{"text": s}\<close> with \<open>s\<close> a \<open>str\<close>, and is written out for that shape: the characters
  \<open>"\<close>, \<open>\\<close> and the control characters below U+0020 are escaped, every other
  character is kept.
\<close>

definition hex_digit :: "nat \<Rightarrow> nat" where
  "hex_digit n = (if n < 10 then 48 + n else 87 + n)"

definition escape_char :: "nat \<Rightarrow> pystr" where
  "escape_char c =
     (if c = 92 then [92, 92]
      else if c = 34 then [92, 34]
      else if c = 8 then [92, 98]
      else if c = 12 then [92, 102]
      else if c = 10 then [92, 110]
      else if c = 13 then [92, 114]
      else if c = 9 then [92, 116]
      else if c < 32 then [92, 117, 48, 48, hex_digit (c div 16), hex_digit (c mod 16)]
      else [c])"

definition encode_basestring :: "pystr \<Rightarrow> pystr" where
  "encode_basestring s = [34] @ concat (map escape_char s) @ [34]"

definition json_dumps_entry :: "pystr \<Rightarrow> pystr" where
  "json_dumps_entry s = [123] @ encode_basestring (py ''text'') @ [58, 32] @ encode_basestring s @ [125]"

text \<open>\<open>obj.get("text", "")\<close>: only a \<open>dict\<close> has the method.\<close>

definition py_get_text :: "json \<Rightarrow> error + json" where
  "py_get_text j =
     (case j of
        JObj kvs \<Rightarrow> (case map_of kvs (py ''text'') of Some v \<Rightarrow> Inr v | None \<Rightarrow> Inr (JStr []))
      | _ \<Rightarrow> Inl AttributeError)"

text \<open>\<open>len(obj)\<close> on a parsed JSON value: numbers, booleans and \<open>None\<close> have no length.\<close>

definition py_len :: "json \<Rightarrow> error + nat" where
  "py_len j =
     (case j of
        JArr xs \<Rightarrow> Inr (length xs)
      | JObj kvs \<Rightarrow> Inr (length (remdups (map fst kvs)))
      | JStr s \<Rightarrow> Inr (length s)
      | _ \<Rightarrow> Inl TypeError)"

text \<open>
  Subscripting a list, \<open>xs[i]\<close>. From \<open>0\<close> up to \<open>len(xs) - 1\<close> the position is
  \<open>i\<close>; from \<open>-len(xs)\<close> up to \<open>-1\<close> it is \<open>len(xs) + i\<close>, so that \<open>xs[-1]\<close> is the last
  element; anywhere else the interpreter raises \<open>IndexError\<close>.
\<close>

definition py_index :: "'a list \<Rightarrow> int \<Rightarrow> error + 'a" where
  "py_index xs i =
     (if 0 \<le> i \<and> i < int (length xs) then Inr (xs ! nat i)
      else if - int (length xs) \<le> i \<and> i < 0 then Inr (xs ! nat (int (length xs) + i))
      else Inl IndexError)"

section \<open>The vector index\<close>

text \<open>
  An embedding is a row of components; \<open>embedder.encode\<close> returns an array of rows, one
  per input text. \<open>faiss.IndexFlatIP(d)\<close> is a flat index of dimension \<open>d\<close> holding its
  vectors in insertion order; \<open>ntotal\<close> is their number.
\<close>

type_synonym vec = "real list"

record faiss_index =
  d :: nat
  xb :: "vec list"

definition IndexFlatIP :: "nat \<Rightarrow> faiss_index" where
  "IndexFlatIP n = \<lparr>d = n, xb = []\<rparr>"

definition ntotal :: "faiss_index \<Rightarrow> nat" where
  "ntotal idx = length (xb idx)"

text \<open>\<open>emb.shape[1]\<close>: the common length of the rows of the array.\<close>

definition shape1 :: "vec list \<Rightarrow> error + nat" where
  "shape1 emb = (case emb of [] \<Rightarrow> Inl IndexError | v # _ \<Rightarrow> Inr (length v))"

text \<open>
  \<open>index.add(x)\<close>: the wrapper asserts that the rows of \<open>x\<close> have the dimension of the
  index, then appends them, so that row \<open>i\<close> of the call gets position \<open>ntotal + i\<close>.
\<close>

definition faiss_add :: "faiss_index \<Rightarrow> vec list \<Rightarrow> error + faiss_index" where
  "faiss_add idx x =
     (if list_all (\<lambda>v. length v = d idx) x then Inr (idx\<lparr>xb := xb idx @ x\<rparr>)
      else Inl AssertionError)"

text \<open>
  The index file holds an opaque blob: either the serialisation of an index, which
  \<open>faiss.read_index\<close> gives back, or bytes that it rejects.
\<close>

datatype blob = Serialized faiss_index | Corrupt_blob

definition read_index :: "blob \<Rightarrow> error + faiss_index" where
  "read_index b = (case b of Serialized idx \<Rightarrow> Inr idx | Corrupt_blob \<Rightarrow> Inl RuntimeError)"

text \<open>
  The IdMap file is written by \<open>json.dump\<close> and read by \<open>json.load\<close> only: it is either a
  JSON document, given by its value, or text that \<open>json.load\<close> rejects.
\<close>

datatype json_doc = Doc json | Not_json

definition json_load :: "json_doc \<Rightarrow> error + json" where
  "json_load f = (case f of Doc j \<Rightarrow> Inr j | Not_json \<Rightarrow> Inl JSONDecodeError)"

section \<open>State\<close>

text \<open>
  What the program prints and what it asks of the embedding model, in the order in which
  it happens.
\<close>

datatype event =
    Warn_soul_missing
  | Building nat
  | Encode "json list"

text \<open>
  The world outside the process: the three files under \<open>MEMORY_DIR\<close> (\<open>None\<close> when the
  file does not exist), whether the soul file can be opened for appending, and the events
  so far.
\<close>

record world =
  soul_file :: "pystr option"
  soul_writable :: bool
  index_file :: "blob option"
  idmap_file :: "json_doc option"
  trace :: "event list"

text \<open>The module's globals \<open>index\<close> and \<open>memories\<close>, together with the world.\<close>

record ghost =
  env :: world
  index :: faiss_index
  memories :: "json list"

definition emit :: "event \<Rightarrow> world \<Rightarrow> world" where
  "emit e w = w\<lparr>trace := trace w @ [e]\<rparr>"

section \<open>Index helpers\<close>

text \<open>
  The loop of \<open>_load_texts\<close> over the lines of the soul file; \<open>texts\<close> is the list built
  so far. Only \<open>JSONDecodeError\<close> is caught.
\<close>

fun load_lines :: "(pystr \<Rightarrow> error + json) \<Rightarrow> pystr list \<Rightarrow> json list \<Rightarrow> error + json list" where
  "load_lines loads [] texts = Inr texts"
| "load_lines loads (line # rest) texts =
     (let line' = py_strip line in
      if line' = [] then load_lines loads rest texts
      else (case loads line' of
              Inr obj \<Rightarrow>
                (case py_get_text obj of
                   Inl e \<Rightarrow> Inl e
                 | Inr v \<Rightarrow> load_lines loads rest (texts @ [v]))
            | Inl e \<Rightarrow>
                if e = JSONDecodeError then load_lines loads rest (texts @ [JStr line'])
                else Inl e))"

definition load_texts :: "(pystr \<Rightarrow> error + json) \<Rightarrow> world \<Rightarrow> (error + json list) \<times> world" where
  "load_texts loads w =
     (case soul_file w of
        None \<Rightarrow> (Inr [], emit Warn_soul_missing w)
      | Some content \<Rightarrow> (load_lines loads (py_lines (universal_newlines content)) [], w))"

definition rebuild_index ::
  "(json list \<Rightarrow> error + vec list) \<Rightarrow> json list \<Rightarrow> world \<Rightarrow> (error + faiss_index) \<times> world" where
  "rebuild_index encode texts w =
     (let w1 = emit (Building (length texts)) w in
      if texts = [] then (Inr (IndexFlatIP 1), w1)
      else
        (let w2 = emit (Encode texts) w1 in
         case encode texts of
           Inl e \<Rightarrow> (Inl e, w2)
         | Inr emb \<Rightarrow>
             (case shape1 emb of
                Inl e \<Rightarrow> (Inl e, w2)
              | Inr n \<Rightarrow>
                  (case faiss_add (IndexFlatIP n) emb of
                     Inl e \<Rightarrow> (Inl e, w2)
                   | Inr idx \<Rightarrow>
                       (Inr idx,
                        w2\<lparr>index_file := Some (Serialized idx),
                           idmap_file := Some (Doc (JArr (map (\<lambda>i. JInt (int i)) [0..<length texts])))\<rparr>)))))"

definition load_or_build_index ::
  "(pystr \<Rightarrow> error + json) \<Rightarrow> (json list \<Rightarrow> error + vec list) \<Rightarrow> world
     \<Rightarrow> (error + faiss_index \<times> json list) \<times> world" where
  "load_or_build_index loads encode w =
     (case load_texts loads w of
        (Inl e, w1) \<Rightarrow> (Inl e, w1)
      | (Inr texts, w1) \<Rightarrow>
          (let rebuild =
                 (case rebuild_index encode texts w1 of
                    (Inl e, w2) \<Rightarrow> (Inl e, w2)
                  | (Inr idx, w2) \<Rightarrow> (Inr (idx, texts), w2))
           in case (index_file w1, idmap_file w1) of
                (Some b, Some f) \<Rightarrow>
                  (case json_load f of
                     Inl e \<Rightarrow> (Inl e, w1)
                   | Inr ids \<Rightarrow>
                       (case py_len ids of
                          Inl e \<Rightarrow> (Inl e, w1)
                        | Inr n \<Rightarrow>
                            if n = length texts then
                              (case read_index b of
                                 Inl e \<Rightarrow> (Inl e, w1)
                               | Inr idx \<Rightarrow> (Inr (idx, texts), w1))
                            else rebuild))
              | _ \<Rightarrow> rebuild))"

text \<open>The module-level statement \<open>index, memories = _load_or_build_index()\<close>.\<close>

definition startup ::
  "(pystr \<Rightarrow> error + json) \<Rightarrow> (json list \<Rightarrow> error + vec list) \<Rightarrow> world \<Rightarrow> error + ghost" where
  "startup loads encode w =
     (case load_or_build_index loads encode w of
        (Inl e, w') \<Rightarrow> Inl e
      | (Inr (idx, texts), w') \<Rightarrow> Inr \<lparr>env = w', index = idx, memories = texts\<rparr>)"

section \<open>Core utilities\<close>

text \<open>
  The comprehension \<open>[memories[i] for i in I[0] if i < len(memories)]\<close> over the labels
  that \<open>index.search\<close> returned.
\<close>

fun pick_memories :: "json list \<Rightarrow> int list \<Rightarrow> error + json list" where
  "pick_memories mem [] = Inr []"
| "pick_memories mem (i # rest) =
     (if i < int (length mem) then
        (case py_index mem i of
           Inl e \<Rightarrow> Inl e
         | Inr m \<Rightarrow> (case pick_memories mem rest of Inl e \<Rightarrow> Inl e | Inr ms \<Rightarrow> Inr (m # ms)))
      else pick_memories mem rest)"

text \<open>
  \<open>index.search(q_vec, k)\<close> is the parameter \<open>search\<close>; it returns the row of labels for
  the one query, \<open>I[0]\<close>.
\<close>

definition retrieve_memories ::
  "(json list \<Rightarrow> error + vec list) \<Rightarrow> (faiss_index \<Rightarrow> vec list \<Rightarrow> int \<Rightarrow> error + int list)
     \<Rightarrow> pystr \<Rightarrow> int \<Rightarrow> ghost \<Rightarrow> (error + json list) \<times> ghost" where
  "retrieve_memories encode search query k st =
     (if memories st = [] then (Inr [], st)
      else
        (let st1 = st\<lparr>env := emit (Encode [JStr query]) (env st)\<rparr> in
         case encode [JStr query] of
           Inl e \<Rightarrow> (Inl e, st1)
         | Inr q_vec \<Rightarrow>
             (case search (index st) q_vec k of
                Inl e \<Rightarrow> (Inl e, st1)
              | Inr labels \<Rightarrow> (pick_memories (memories st) labels, st1))))"

text \<open>
  The text of the entry that \<open>maybe_append_soul\<close> stores. Opening the soul file for
  appending is the first thing the function does; when that raises, nothing else has
  happened.
\<close>

definition entry_text :: "pystr \<Rightarrow> pystr \<Rightarrow> pystr" where
  "entry_text prompt reply =
     py ''Ghost said: '' @ [39] @ reply @ [39] @ py '' in response to: '' @ [39] @ prompt @ [39]"

definition soul_append :: "pystr \<Rightarrow> world \<Rightarrow> world" where
  "soul_append s w =
     w\<lparr>soul_file := Some ((case soul_file w of None \<Rightarrow> [] | Some content \<Rightarrow> content) @ s)\<rparr>"

definition maybe_append_soul ::
  "(json list \<Rightarrow> error + vec list) \<Rightarrow> pystr \<Rightarrow> pystr \<Rightarrow> ghost \<Rightarrow> (error + unit) \<times> ghost" where
  "maybe_append_soul encode prompt reply st =
     (let text = entry_text prompt reply in
      if soul_writable (env st) then
        (let w1 = soul_append (json_dumps_entry text @ [10]) (env st);
             w2 = emit (Encode [JStr text]) w1;
             st2 = st\<lparr>env := w2\<rparr>
         in case encode [JStr text] of
              Inl e \<Rightarrow> (Inl e, st2)
            | Inr vec \<Rightarrow>
                (case faiss_add (index st) vec of
                   Inl e \<Rightarrow> (Inl e, st2)
                 | Inr idx \<Rightarrow>
                     (Inr (), st2\<lparr>index := idx, memories := memories st @ [JStr text]\<rparr>)))
      else (Inl OSError, st))"

section \<open>Notions used in the statements\<close>

text \<open>
  The records of the log: the stripped, non-blank lines of the soul file, in file order.
  \<open>line_record\<close> is what the body of the loop of \<open>_load_texts\<close> makes of one such line.
\<close>

definition nonblank :: "pystr list \<Rightarrow> pystr list" where
  "nonblank ls = filter (\<lambda>l. l \<noteq> []) (map py_strip ls)"

definition soul_records :: "pystr \<Rightarrow> pystr list" where
  "soul_records content = nonblank (py_lines (universal_newlines content))"

definition line_record :: "(pystr \<Rightarrow> error + json) \<Rightarrow> pystr \<Rightarrow> error + json" where
  "line_record loads l =
     (case loads l of
        Inr obj \<Rightarrow> py_get_text obj
      | Inl e \<Rightarrow> if e = JSONDecodeError then Inr (JStr l) else Inl e)"

text \<open>The number of records in the log; a soul file that does not exist holds none.\<close>

definition log_length :: "world \<Rightarrow> nat" where
  "log_length w = (case soul_file w of None \<Rightarrow> 0 | Some content \<Rightarrow> length (soul_records content))"

text \<open>
  The test of \<open>_load_or_build_index\<close> for trusting the persisted index, for a log of \<open>n\<close>
  texts: both files exist, and the parsed IdMap has length \<open>n\<close>.
\<close>

definition reuse_condition :: "world \<Rightarrow> nat \<Rightarrow> bool" where
  "reuse_condition w n =
     (case (index_file w, idmap_file w) of
        (Some b, Some f) \<Rightarrow> (case json_load f of Inr ids \<Rightarrow> py_len ids = Inr n | Inl e \<Rightarrow> False)
      | _ \<Rightarrow> False)"

text \<open>
  The soul file is absent, empty, or ends with a line terminator: the next record written
  starts a line of its own.
\<close>

definition terminated :: "pystr \<Rightarrow> bool" where
  "terminated content = (content = [] \<or> last content = 10 \<or> last content = 13)"

definition soul_terminated :: "world \<Rightarrow> bool" where
  "soul_terminated w = (case soul_file w of None \<Rightarrow> True | Some content \<Rightarrow> terminated content)"

text \<open>
  In-memory alignment for an embedding function \<open>embedding\<close>: position \<open>i\<close> of the index
  holds the embedding of the text at ordinal \<open>i\<close>.
\<close>

definition aligned :: "(json \<Rightarrow> vec) \<Rightarrow> ghost \<Rightarrow> bool" where
  "aligned embedding st = (xb (index st) = map embedding (memories st))"

text \<open>
  A synchronised state: the index is aligned with the in-memory texts, the log holds as
  many records as there are texts, and its last line is terminated.
\<close>

definition synchronized :: "(json \<Rightarrow> vec) \<Rightarrow> ghost \<Rightarrow> bool" where
  "synchronized embedding st =
     (aligned embedding st \<and> log_length (env st) = length (memories st) \<and> soul_terminated (env st))"

text \<open>
  A run of appends, one per exchange, as the loop of \<open>main\<close> makes them; an exception ends
  the run.
\<close>

fun append_all ::
  "(json list \<Rightarrow> error + vec list) \<Rightarrow> (pystr \<times> pystr) list \<Rightarrow> ghost \<Rightarrow> (error + unit) \<times> ghost" where
  "append_all encode [] st = (Inr (), st)"
| "append_all encode ((prompt, reply) # rest) st =
     (case maybe_append_soul encode prompt reply st of
        (Inl e, st') \<Rightarrow> (Inl e, st')
      | (Inr u, st') \<Rightarrow> append_all encode rest st')"

section \<open>Sample inputs\<close>

text \<open>
  A parser given by a finite table of documents and their values; every other text is
  rejected. \<open>sample_loads\<close> agrees with \<open>json.loads\<close> on the lines of the sample files
  below.
\<close>

definition table_loads :: "(pystr \<times> json) list \<Rightarrow> pystr \<Rightarrow> error + json" where
  "table_loads tbl s = (case map_of tbl s of Some j \<Rightarrow> Inr j | None \<Rightarrow> Inl JSONDecodeError)"

text \<open>The documents \<open>{"text": "hi"}\<close> and \<open>{"note": 1}\<close>.\<close>

definition doc_hi :: pystr where
  "doc_hi = json_dumps_entry (py ''hi'')"

definition doc_note :: pystr where
  "doc_note = [123, 34] @ py ''note'' @ [34, 58, 32, 49, 125]"

text \<open>
  An exchange, \<open>ping\<close> answered by \<open>pong\<close>, and the line that \<open>maybe_append_soul\<close> writes
  for it.
\<close>

definition ping :: pystr where
  "ping = py ''ping''"

definition pong :: pystr where
  "pong = py ''pong''"

definition doc_pong :: pystr where
  "doc_pong = json_dumps_entry (entry_text ping pong)"

definition sample_loads :: "pystr \<Rightarrow> error + json" where
  "sample_loads =
     table_loads [(doc_hi, JObj [(py ''text'', JStr (py ''hi''))]),
                  (doc_note, JObj [(py ''note'', JInt 1)]),
                  (py ''5'', JInt 5),
                  (doc_pong, JObj [(py ''text'', JStr (entry_text ping pong))])]"

text \<open>
  An embedder of dimension 384, as \<open>all-MiniLM-L6-v2\<close> is, and one that is unavailable.
\<close>

definition sample_embed :: "json \<Rightarrow> vec" where
  "sample_embed t = real (case t of JStr s \<Rightarrow> length s | _ \<Rightarrow> 0) # replicate 383 0"

definition sample_encode :: "json list \<Rightarrow> error + vec list" where
  "sample_encode ts = Inr (map sample_embed ts)"

definition failing_encode :: "json list \<Rightarrow> error + vec list" where
  "failing_encode ts = Inl EmbedderError"

text \<open>
  A search that ranks the stored vectors in their stored order. Like every search of the
  library it returns exactly \<open>k\<close> labels and fills the places for which the index has no
  vector with \<open>-1\<close>; it asserts \<open>k > 0\<close> and the dimension of the query.
\<close>

definition stored_order_search :: "faiss_index \<Rightarrow> vec list \<Rightarrow> int \<Rightarrow> error + int list" where
  "stored_order_search idx q k =
     (if 0 < k \<and> list_all (\<lambda>v. length v = d idx) q
      then Inr (map int [0..<min (nat k) (ntotal idx)] @ replicate (nat k - ntotal idx) (- 1))
      else Inl AssertionError)"

text \<open>A fresh memory directory, and the same directory holding a soul file.\<close>

definition fresh_world :: world where
  "fresh_world =
     \<lparr>soul_file = None, soul_writable = True, index_file = None, idmap_file = None, trace = []\<rparr>"

definition world_with_soul :: "pystr \<Rightarrow> world" where
  "world_with_soul content = fresh_world\<lparr>soul_file := Some content\<rparr>"

text \<open>
  A soul file of four records, with a blank line and a last line left unterminated:
  \<open>{"text": "hi"}\<close>, \<open>hello\<close> between blanks, \<open>{"note": 1}\<close>, and \<open>{bad\<close>.
\<close>

definition soul_mixed :: pystr where
  "soul_mixed = doc_hi @ [10] @ py ''  hello '' @ [13, 10, 10] @ doc_note @ [10] @ py ''{bad''"

text \<open>The state after starting on a fresh memory directory.\<close>

definition empty_store :: ghost where
  "empty_store = \<lparr>env = emit (Building 0) (emit Warn_soul_missing fresh_world),
                   index = IndexFlatIP 1, memories = []\<rparr>"

text \<open>The inputs of the calls of \<open>embedder.encode\<close> made so far, oldest first.\<close>

definition encode_calls :: "world \<Rightarrow> json list list" where
  "encode_calls w = concat (map (\<lambda>e. case e of Encode ts \<Rightarrow> [ts] | _ \<Rightarrow> []) (trace w))"

text \<open>
  The texts of \<open>soul_mixed\<close>, the index over their embeddings, and the memory directory
  as a rebuild leaves it for that soul file.
\<close>

definition texts_mixed :: "json list" where
  "texts_mixed = [JStr (py ''hi''), JStr (py ''hello''), JStr [], JStr (py ''{bad'')]"

definition index_mixed :: faiss_index where
  "index_mixed = \<lparr>d = 384, xb = map sample_embed texts_mixed\<rparr>"

definition synced_world :: world where
  "synced_world =
     (world_with_soul soul_mixed)
       \<lparr>index_file := Some (Serialized index_mixed),
        idmap_file := Some (Doc (JArr [JInt 0, JInt 1, JInt 2, JInt 3]))\<rparr>"

text \<open>
  A soul file of two terminated lines, \<open>{"text": "hi"}\<close> and \<open>hello\<close>, and the state of
  the process after starting on it in an otherwise fresh memory directory.
\<close>

definition soul_two :: pystr where
  "soul_two = doc_hi @ [10] @ py ''hello'' @ [10]"

definition texts_two :: "json list" where
  "texts_two = [JStr (py ''hi''), JStr (py ''hello'')]"

definition index_two :: faiss_index where
  "index_two = \<lparr>d = 384, xb = map sample_embed texts_two\<rparr>"

definition store_two :: ghost where
  "store_two =
     \<lparr>env = (world_with_soul soul_two)
              \<lparr>index_file := Some (Serialized index_two),
               idmap_file := Some (Doc (JArr [JInt 0, JInt 1])),
               trace := [Building 2, Encode texts_two]\<rparr>,
      index = index_two, memories = texts_two\<rparr>"

text \<open>The state of the process after starting on \<open>synced_world\<close>.\<close>

definition store_mixed :: ghost where
  "store_mixed = \<lparr>env = synced_world, index = index_mixed, memories = texts_mixed\<rparr>"

text \<open>
  A soul file whose only line, \<open>hello\<close>, is left unterminated, and the state of the process
  after starting on it in an otherwise fresh memory directory.
\<close>

definition soul_open :: pystr where
  "soul_open = py ''hello''"

definition index_open :: faiss_index where
  "index_open = \<lparr>d = 384, xb = [sample_embed (JStr (py ''hello''))]\<rparr>"

definition store_open :: ghost where
  "store_open =
     \<lparr>env = (world_with_soul soul_open)
              \<lparr>index_file := Some (Serialized index_open),
               idmap_file := Some (Doc (JArr [JInt 0])),
               trace := [Building 1, Encode [JStr (py ''hello'')]]\<rparr>,
      index = index_open, memories = [JStr (py ''hello'')]\<rparr>"

lemmas sample_defs =
  py_def json_dumps_entry_def encode_basestring_def escape_char_def hex_digit_def
  py_strip_def is_space_def py_get_text_def py_len_def py_index_def
  table_loads_def doc_hi_def doc_note_def sample_loads_def
  sample_embed_def sample_encode_def failing_encode_def stored_order_search_def
  fresh_world_def world_with_soul_def soul_mixed_def
  texts_mixed_def index_mixed_def synced_world_def
  ping_def pong_def doc_pong_def entry_text_def soul_two_def texts_two_def index_two_def
  store_two_def store_mixed_def soul_open_def index_open_def store_open_def

section \<open>Loading the log\<close>

lemma nonblank_Cons:
  "nonblank (l # ls) = (if py_strip l = [] then nonblank ls else py_strip l # nonblank ls)"
  by (simp add: nonblank_def)

lemma load_lines_Inr:
  "load_lines loads ls acc = Inr texts \<Longrightarrow>
     \<exists>recs. texts = acc @ recs \<and> list_all2 (\<lambda>l t. line_record loads l = Inr t) (nonblank ls) recs"
proof (induction ls arbitrary: acc)
  case Nil
  then show ?case by (simp add: nonblank_def)
next
  case (Cons l ls)
  show ?case
  proof (cases "py_strip l = []")
    case True
    with Cons.prems have "load_lines loads ls acc = Inr texts" by simp
    from Cons.IH [OF this] True show ?thesis by (simp add: nonblank_Cons)
  next
    case False
    from Cons.prems False obtain v where v: "line_record loads (py_strip l) = Inr v"
      and rest: "load_lines loads ls (acc @ [v]) = Inr texts"
      by (auto simp: line_record_def Let_def split: sum.splits if_splits)
    from Cons.IH [OF rest] obtain recs where
      "texts = (acc @ [v]) @ recs" "list_all2 (\<lambda>l t. line_record loads l = Inr t) (nonblank ls) recs"
      by blast
    with v False show ?thesis by (simp add: nonblank_Cons)
  qed
qed

lemma load_lines_total:
  "list_all (\<lambda>l. \<exists>t. line_record loads l = Inr t) (nonblank ls) \<Longrightarrow> \<exists>texts. load_lines loads ls acc = Inr texts"
proof (induction ls arbitrary: acc)
  case Nil
  then show ?case by simp
next
  case (Cons l ls)
  show ?case
  proof (cases "py_strip l = []")
    case True
    with Cons show ?thesis by (simp add: nonblank_Cons)
  next
    case False
    with Cons.prems obtain t where t: "line_record loads (py_strip l) = Inr t"
      and rest: "list_all (\<lambda>l. \<exists>t. line_record loads l = Inr t) (nonblank ls)"
      by (auto simp: nonblank_Cons)
    from Cons.IH [OF rest] obtain texts where "load_lines loads ls (acc @ [t]) = Inr texts" by blast
    with t False show ?thesis
      by (auto simp: line_record_def Let_def split: sum.splits if_splits)
  qed
qed

lemma load_texts_records:
  assumes "soul_file w = Some content" and "load_texts loads w = (Inr texts, w')"
  shows "list_all2 (\<lambda>l t. line_record loads l = Inr t) (soul_records content) texts"
proof -
  from assms have "load_lines loads (py_lines (universal_newlines content)) [] = Inr texts"
    by (simp add: load_texts_def)
  from load_lines_Inr [OF this] show ?thesis by (simp add: soul_records_def)
qed

lemma load_texts_returns:
  assumes "soul_file w = Some content"
    and "list_all (\<lambda>l. \<exists>t. line_record loads l = Inr t) (soul_records content)"
  shows "\<exists>texts. load_texts loads w = (Inr texts, w)"
  using assms load_lines_total [of loads "py_lines (universal_newlines content)" "[]"]
  by (auto simp: load_texts_def soul_records_def)

text \<open>
  C9. Whenever \<open>_load_texts\<close> returns, it has one record for every non-blank line of the
  soul file, in file order, and the record of a line that is not JSON is the stripped line
  itself: no such line is dropped.
\<close>

theorem load_texts_keeps_unparsable_lines:
  assumes "soul_file w = Some content" and "load_texts loads w = (Inr texts, w')"
  shows "length texts = length (soul_records content) \<and>
         (\<forall>i < length (soul_records content).
            loads (soul_records content ! i) = Inl JSONDecodeError \<longrightarrow>
            texts ! i = JStr (soul_records content ! i))"
proof -
  have rel: "list_all2 (\<lambda>l t. line_record loads l = Inr t) (soul_records content) texts"
    using assms by (rule load_texts_records)
  then have len: "length texts = length (soul_records content)"
    by (simp add: list_all2_lengthD)
  have "texts ! i = JStr (soul_records content ! i)"
    if "i < length (soul_records content)" "loads (soul_records content ! i) = Inl JSONDecodeError" for i
  proof -
    from rel that(1) have "line_record loads (soul_records content ! i) = Inr (texts ! i)"
      by (rule list_all2_nthD)
    with that(2) show ?thesis by (simp add: line_record_def)
  qed
  with len show ?thesis by blast
qed

lemma soul_mixed_records:
  "soul_records soul_mixed = [doc_hi, py ''hello'', doc_note, py ''{bad'']"
  by (simp add: soul_records_def nonblank_def sample_defs)

lemma soul_mixed_texts:
  "load_texts sample_loads (world_with_soul soul_mixed) =
     (Inr [JStr (py ''hi''), JStr (py ''hello''), JStr [], JStr (py ''{bad'')], world_with_soul soul_mixed)"
  by (simp add: load_texts_def sample_defs)

theorem load_texts_keeps_unparsable_lines_witness:
  "soul_file (world_with_soul soul_mixed) = Some soul_mixed \<and>
   load_texts sample_loads (world_with_soul soul_mixed) =
     (Inr [JStr (py ''hi''), JStr (py ''hello''), JStr [], JStr (py ''{bad'')], world_with_soul soul_mixed) \<and>
   sample_loads (soul_records soul_mixed ! 1) = Inl JSONDecodeError \<and>
   sample_loads (soul_records soul_mixed ! 3) = Inl JSONDecodeError \<and>
   length (soul_records soul_mixed) = 4 \<and>
   [JStr (py ''hi''), JStr (py ''hello''), JStr [], JStr (py ''{bad'')] ! 1 = JStr (soul_records soul_mixed ! 1) \<and>
   [JStr (py ''hi''), JStr (py ''hello''), JStr [], JStr (py ''{bad'')] ! 3 = JStr (soul_records soul_mixed ! 3)"
proof -
  have f: "soul_file (world_with_soul soul_mixed) = Some soul_mixed"
    by (simp add: world_with_soul_def)
  have l1: "sample_loads (soul_records soul_mixed ! 1) = Inl JSONDecodeError"
    unfolding soul_mixed_records by (simp add: sample_defs)
  have l3: "sample_loads (soul_records soul_mixed ! 3) = Inl JSONDecodeError"
    unfolding soul_mixed_records by (simp add: sample_defs)
  have n: "length (soul_records soul_mixed) = 4"
    by (simp add: soul_mixed_records)
  note inst = load_texts_keeps_unparsable_lines [OF f soul_mixed_texts]
  from inst have all: "\<forall>i < length (soul_records soul_mixed).
      sample_loads (soul_records soul_mixed ! i) = Inl JSONDecodeError \<longrightarrow>
      [JStr (py ''hi''), JStr (py ''hello''), JStr [], JStr (py ''{bad'')] ! i = JStr (soul_records soul_mixed ! i)"
    by blast
  from all [rule_format, of 1] l1 n
  have r1: "[JStr (py ''hi''), JStr (py ''hello''), JStr [], JStr (py ''{bad'')] ! 1 = JStr (soul_records soul_mixed ! 1)"
    by simp
  from all [rule_format, of 3] l3 n
  have r3: "[JStr (py ''hi''), JStr (py ''hello''), JStr [], JStr (py ''{bad'')] ! 3 = JStr (soul_records soul_mixed ! 3)"
    by simp
  from f soul_mixed_texts l1 l3 n r1 r3 show ?thesis by blast
qed

text \<open>
  C10. Whenever \<open>_load_texts\<close> returns, a line that parses as a JSON object without a
  \<open>"text"\<close> key has the empty string as its record; the record is counted, and a rebuild
  hands it to the embedder with the other texts.
\<close>

theorem load_texts_object_without_text:
  assumes "soul_file w = Some content" and "load_texts loads w = (Inr texts, w')"
    and "i < length (soul_records content)"
    and "loads (soul_records content ! i) = Inr (JObj kvs)"
    and "map_of kvs (py ''text'') = None"
  shows "i < length texts \<and> texts ! i = JStr [] \<and>
         Encode texts \<in> set (trace (snd (rebuild_index encode texts w')))"
proof -
  have rel: "list_all2 (\<lambda>l t. line_record loads l = Inr t) (soul_records content) texts"
    using assms(1,2) by (rule load_texts_records)
  then have len: "length texts = length (soul_records content)"
    by (simp add: list_all2_lengthD)
  from rel assms(3) have "line_record loads (soul_records content ! i) = Inr (texts ! i)"
    by (rule list_all2_nthD)
  with assms(4,5) have t: "texts ! i = JStr []"
    by (simp add: line_record_def py_get_text_def)
  from len assms(3) have ne: "texts \<noteq> []" by auto
  then have "Encode texts \<in> set (trace (snd (rebuild_index encode texts w')))"
    by (auto simp: rebuild_index_def Let_def emit_def split: sum.splits)
  with len assms(3) t show ?thesis by simp
qed

theorem load_texts_object_without_text_witness:
  "soul_file (world_with_soul soul_mixed) = Some soul_mixed \<and>
   load_texts sample_loads (world_with_soul soul_mixed) =
     (Inr [JStr (py ''hi''), JStr (py ''hello''), JStr [], JStr (py ''{bad'')], world_with_soul soul_mixed) \<and>
   2 < length (soul_records soul_mixed) \<and>
   sample_loads (soul_records soul_mixed ! 2) = Inr (JObj [(py ''note'', JInt 1)]) \<and>
   map_of [(py ''note'', JInt 1)] (py ''text'') = None \<and>
   [JStr (py ''hi''), JStr (py ''hello''), JStr [], JStr (py ''{bad'')] ! 2 = JStr [] \<and>
   Encode [JStr (py ''hi''), JStr (py ''hello''), JStr [], JStr (py ''{bad'')]
     \<in> set (trace (snd (rebuild_index sample_encode
          [JStr (py ''hi''), JStr (py ''hello''), JStr [], JStr (py ''{bad'')] (world_with_soul soul_mixed))))"
proof -
  have f: "soul_file (world_with_soul soul_mixed) = Some soul_mixed"
    by (simp add: world_with_soul_def)
  have n: "2 < length (soul_records soul_mixed)"
    by (simp add: soul_mixed_records)
  have l2: "sample_loads (soul_records soul_mixed ! 2) = Inr (JObj [(py ''note'', JInt 1)])"
    unfolding soul_mixed_records by (simp add: sample_defs)
  have k: "map_of [(py ''note'', JInt 1)] (py ''text'') = None"
    by (simp add: py_def)
  from load_texts_object_without_text [OF f soul_mixed_texts n l2 k, of sample_encode]
    f soul_mixed_texts n l2 k
  show ?thesis by blast
qed

section \<open>Start-up: reuse or rebuild\<close>

lemma load_texts_world:
  "load_texts loads w = (r, w1) \<Longrightarrow>
     soul_file w1 = soul_file w \<and> index_file w1 = index_file w \<and> idmap_file w1 = idmap_file w \<and>
     soul_writable w1 = soul_writable w \<and> encode_calls w1 = encode_calls w"
  by (auto simp: load_texts_def emit_def encode_calls_def split: option.splits)


lemma reuse_condition_load_texts:
  "load_texts loads w = (r, w1) \<Longrightarrow> reuse_condition w1 n = reuse_condition w n"
  by (drule load_texts_world) (simp add: reuse_condition_def)




lemma load_or_build_unsynced:
  "load_or_build_index sample_loads sample_encode (world_with_soul soul_mixed) =
     (Inr (index_mixed, texts_mixed), synced_world\<lparr>trace := [Building 4, Encode texts_mixed]\<rparr>)"
  by (simp add: load_or_build_index_def load_texts_def rebuild_index_def emit_def shape1_def
        faiss_add_def IndexFlatIP_def Let_def sample_defs)



lemma load_or_build_reuses:
  assumes "load_texts loads w = (Inr texts, w1)" and "index_file w = Some b"
    and "read_index b = Inr idx" and "reuse_condition w (length texts)"
  shows "load_or_build_index loads encode w = (Inr (idx, texts), w1)"
proof -
  from assms(4,2) obtain f ids where f: "idmap_file w = Some f"
    and ids: "json_load f = Inr ids" "py_len ids = Inr (length texts)"
    by (auto simp: reuse_condition_def split: option.splits sum.splits)
  from load_texts_world [OF assms(1)] assms(2) f
  have "index_file w1 = Some b" "idmap_file w1 = Some f" by simp_all
  with assms(1,3) ids show ?thesis
    by (simp add: load_or_build_index_def)
qed

text \<open>
  C6, as stated, fails. With both files present, an IdMap file that is not JSON makes
  \<open>_load_or_build_index\<close> raise \<open>JSONDecodeError\<close>, and an index file that
  \<open>faiss.read_index\<close> rejects makes it raise when the IdMap length matches; neither is
  caught, and no rebuild takes place.
\<close>

theorem load_or_build_corrupt_counterexample:
  "load_or_build_index sample_loads sample_encode (synced_world\<lparr>idmap_file := Some Not_json\<rparr>) =
     (Inl JSONDecodeError, synced_world\<lparr>idmap_file := Some Not_json\<rparr>) \<and>
   load_or_build_index sample_loads sample_encode (synced_world\<lparr>index_file := Some Corrupt_blob\<rparr>) =
     (Inl RuntimeError, synced_world\<lparr>index_file := Some Corrupt_blob\<rparr>)"
  by (simp add: load_or_build_index_def load_texts_def read_index_def json_load_def sample_defs)

text \<open>
  C6, amended. When the texts load and both files exist, an unparsable IdMap file makes
  \<open>_load_or_build_index\<close> raise \<open>JSONDecodeError\<close>, and an index file that cannot be
  deserialised makes it raise the library's error whenever the IdMap length matches the
  number of texts. In both cases the failure reaches the caller without a rebuild: the
  embedder is not called and the persisted files are left as they are.
\<close>

theorem load_or_build_corrupt_raises:
  assumes "load_texts loads w = (Inr texts, w1)"
    and "index_file w = Some b" and "idmap_file w = Some f"
  shows "(f = Not_json \<longrightarrow> load_or_build_index loads encode w = (Inl JSONDecodeError, w1)) \<and>
         (b = Corrupt_blob \<and> reuse_condition w (length texts) \<longrightarrow>
            load_or_build_index loads encode w = (Inl RuntimeError, w1)) \<and>
         encode_calls w1 = encode_calls w \<and> index_file w1 = index_file w \<and>
         idmap_file w1 = idmap_file w"
proof -
  from load_texts_world [OF assms(1)] assms(2,3)
  have files1: "index_file w1 = Some b" "idmap_file w1 = Some f"
    and same: "encode_calls w1 = encode_calls w" "index_file w1 = index_file w"
      "idmap_file w1 = idmap_file w"
    by simp_all
  have "load_or_build_index loads encode w = (Inl JSONDecodeError, w1)" if "f = Not_json"
    using that assms(1) files1 by (simp add: load_or_build_index_def json_load_def)
  moreover
  have "load_or_build_index loads encode w = (Inl RuntimeError, w1)"
    if "b = Corrupt_blob" "reuse_condition w (length texts)"
  proof -
    from that(2) assms(2,3) obtain ids where "json_load f = Inr ids" "py_len ids = Inr (length texts)"
      by (auto simp: reuse_condition_def split: sum.splits)
    with that(1) assms(1) files1 show ?thesis
      by (simp add: load_or_build_index_def read_index_def)
  qed
  ultimately show ?thesis using same by blast
qed

theorem load_or_build_corrupt_raises_witness:
  "load_texts sample_loads (synced_world\<lparr>index_file := Some Corrupt_blob\<rparr>) =
     (Inr texts_mixed, synced_world\<lparr>index_file := Some Corrupt_blob\<rparr>) \<and>
   index_file (synced_world\<lparr>index_file := Some Corrupt_blob\<rparr>) = Some Corrupt_blob \<and>
   idmap_file (synced_world\<lparr>index_file := Some Corrupt_blob\<rparr>) =
     Some (Doc (JArr [JInt 0, JInt 1, JInt 2, JInt 3])) \<and>
   reuse_condition (synced_world\<lparr>index_file := Some Corrupt_blob\<rparr>) (length texts_mixed) \<and>
   load_or_build_index sample_loads sample_encode (synced_world\<lparr>index_file := Some Corrupt_blob\<rparr>) =
     (Inl RuntimeError, synced_world\<lparr>index_file := Some Corrupt_blob\<rparr>)"
proof -
  let ?w = "synced_world\<lparr>index_file := Some Corrupt_blob\<rparr>"
  have t: "load_texts sample_loads ?w = (Inr texts_mixed, ?w)"
    by (simp add: load_texts_def sample_defs)
  have b: "index_file ?w = Some Corrupt_blob" by simp
  have f: "idmap_file ?w = Some (Doc (JArr [JInt 0, JInt 1, JInt 2, JInt 3]))"
    by (simp add: synced_world_def)
  have c: "reuse_condition ?w (length texts_mixed)"
    by (simp add: reuse_condition_def json_load_def py_len_def synced_world_def texts_mixed_def)
  from load_or_build_corrupt_raises [OF t b f, of sample_encode] c
  have "load_or_build_index sample_loads sample_encode ?w = (Inl RuntimeError, ?w)" by blast
  with t b f c show ?thesis by blast
qed

section \<open>Rebuilding an empty store\<close>

text \<open>
  C7, as stated, fails: after a rebuild from zero texts on a fresh memory directory there
  is neither an index file nor an IdMap file.
\<close>

theorem rebuild_empty_counterexample:
  "index_file (snd (rebuild_index sample_encode [] fresh_world)) = None \<and>
   idmap_file (snd (rebuild_index sample_encode [] fresh_world)) = None"
  by (simp add: rebuild_index_def emit_def fresh_world_def)

text \<open>
  C7, amended. A rebuild from zero texts returns the sentinel index, of dimension 1 and
  with zero vectors, after printing its message; it returns before anything is persisted,
  so the index file and the IdMap file are left as they were, and the embedder is not
  called.
\<close>

theorem rebuild_empty_sentinel:
  "rebuild_index encode [] w = (Inr (IndexFlatIP 1), emit (Building 0) w) \<and>
   d (IndexFlatIP 1) = 1 \<and> ntotal (IndexFlatIP 1) = 0 \<and>
   index_file (emit (Building 0) w) = index_file w \<and>
   idmap_file (emit (Building 0) w) = idmap_file w \<and>
   soul_file (emit (Building 0) w) = soul_file w \<and>
   encode_calls (emit (Building 0) w) = encode_calls w"
  by (simp add: rebuild_index_def emit_def IndexFlatIP_def ntotal_def encode_calls_def)

lemma startup_fresh:
  "startup sample_loads sample_encode fresh_world = Inr empty_store"
  by (simp add: startup_def load_or_build_index_def load_texts_def rebuild_index_def emit_def
        empty_store_def fresh_world_def)

section \<open>The sample states are reached by start-up\<close>

lemma startup_two:
  "startup sample_loads sample_encode (world_with_soul soul_two) = Inr store_two"
  by (simp add: startup_def load_or_build_index_def load_texts_def rebuild_index_def emit_def shape1_def
        faiss_add_def IndexFlatIP_def Let_def sample_defs)

lemma startup_mixed:
  "startup sample_loads sample_encode synced_world = Inr store_mixed"
  by (simp add: startup_def load_or_build_index_def load_texts_def read_index_def json_load_def sample_defs)

lemma startup_open:
  "startup sample_loads sample_encode (world_with_soul soul_open) = Inr store_open"
  by (simp add: startup_def load_or_build_index_def load_texts_def rebuild_index_def emit_def shape1_def
        faiss_add_def IndexFlatIP_def Let_def sample_defs)

section \<open>Appending\<close>

text \<open>
  C1 on a log whose last line is unterminated. Start-up on the one-line soul file
  \<open>hello\<close> gives an aligned state of one memory. The append that follows succeeds, log
  write, embedding and insertion alike, and leaves two vectors and two texts; but the new
  line has been written directly after \<open>hello\<close>, so the log still holds one record, the
  two texts run together.
\<close>

theorem append_unterminated_log:
  "startup sample_loads sample_encode (world_with_soul soul_open) = Inr store_open \<and>
   log_length (env store_open) = 1 \<and> ntotal (index store_open) = 1 \<and>
   length (memories store_open) = 1 \<and>
   fst (maybe_append_soul sample_encode ping pong store_open) = Inr () \<and>
   ntotal (index (snd (maybe_append_soul sample_encode ping pong store_open))) = 2 \<and>
   length (memories (snd (maybe_append_soul sample_encode ping pong store_open))) = 2 \<and>
   log_length (env (snd (maybe_append_soul sample_encode ping pong store_open))) = 1 \<and>
   fst (load_texts sample_loads (env (snd (maybe_append_soul sample_encode ping pong store_open)))) =
     Inr [JStr (py ''hello'' @ doc_pong)]"
  by (simp add: startup_def load_or_build_index_def load_texts_def rebuild_index_def emit_def shape1_def
        faiss_add_def IndexFlatIP_def Let_def maybe_append_soul_def soul_append_def log_length_def
        soul_records_def nonblank_def ntotal_def sample_defs)

text \<open>
  On a fresh store the index is the sentinel of dimension 1. The first append writes its
  record and embeds the text, 384 components; \<open>index.add\<close> then rejects the vector, so
  that the log holds one record and the index and the in-memory texts none.
\<close>

lemma append_on_fresh_store:
  "startup sample_loads sample_encode fresh_world = Inr empty_store \<and>
   sample_encode [JStr (entry_text ping pong)] = Inr [sample_embed (JStr (entry_text ping pong))] \<and>
   fst (maybe_append_soul sample_encode ping pong empty_store) = Inl AssertionError \<and>
   log_length (env (snd (maybe_append_soul sample_encode ping pong empty_store))) = 1 \<and>
   ntotal (index (snd (maybe_append_soul sample_encode ping pong empty_store))) = 0 \<and>
   memories (snd (maybe_append_soul sample_encode ping pong empty_store)) = []"
  by (simp add: startup_def load_or_build_index_def load_texts_def rebuild_index_def emit_def
        faiss_add_def IndexFlatIP_def Let_def maybe_append_soul_def soul_append_def log_length_def
        soul_records_def nonblank_def ntotal_def empty_store_def sample_defs)


subsection \<open>The invariant on a terminated log\<close>

text \<open>
  When the last line of the soul file is terminated, the line written by an append is a
  record of its own, and every append that returns keeps the state synchronised: the
  index, the in-memory texts and the log grow by one, and the new vector is the embedding
  of the new text.
\<close>

lemma universal_newlines_append:
  "b \<noteq> [] \<Longrightarrow> hd b \<noteq> 10 \<Longrightarrow>
     universal_newlines (a @ b) = universal_newlines a @ universal_newlines b"
proof (induction a rule: universal_newlines.induct)
  case 1
  then show ?case by simp
next
  case (2 c)
  then show ?case by (cases b) auto
next
  case (3 c c' cs)
  then show ?case by simp
qed

lemma universal_newlines_no_cr:
  "13 \<notin> set s \<Longrightarrow> universal_newlines s = s"
  by (induction s rule: universal_newlines.induct) auto

lemma universal_newlines_Nil: "universal_newlines s = [] \<longleftrightarrow> s = []"
  by (induction s rule: universal_newlines.induct) auto

lemma universal_newlines_last:
  "a \<noteq> [] \<Longrightarrow> last a = 10 \<or> last a = 13 \<Longrightarrow> last (universal_newlines a) = 10"
  by (induction a rule: universal_newlines.induct)
     (auto simp: universal_newlines_Nil split: if_splits)

lemma universal_newlines_terminated:
  "terminated a \<Longrightarrow> universal_newlines a = [] \<or> last (universal_newlines a) = 10"
  by (cases "a = []") (auto simp: terminated_def dest: universal_newlines_last)

lemma py_lines_Nil: "py_lines s = [] \<longleftrightarrow> s = []"
  by (cases s) (auto split: list.splits)

lemma py_lines_append:
  "x = [] \<or> last x = 10 \<Longrightarrow> py_lines (x @ y) = py_lines x @ py_lines y"
proof (induction x)
  case Nil
  then show ?case by simp
next
  case (Cons c cs)
  show ?case
  proof (cases "cs = []")
    case True
    with Cons.prems show ?thesis by simp
  next
    case False
    with Cons.prems have "last cs = 10" by simp
    with Cons.IH have ih: "py_lines (cs @ y) = py_lines cs @ py_lines y" by simp
    from False obtain l ls where "py_lines cs = l # ls"
      by (cases "py_lines cs") (auto simp: py_lines_Nil)
    with ih show ?thesis by simp
  qed
qed

lemma py_lines_single:
  "10 \<notin> set s \<Longrightarrow> py_lines (s @ [10]) = [s @ [10]]"
  by (induction s) auto

lemma py_strip_line:
  assumes "s \<noteq> []" and "\<not> is_space (hd s)" and "\<not> is_space (last s)"
  shows "py_strip (s @ [10]) = s"
proof -
  from assms(1,2) have "dropWhile is_space (s @ [10]) = s @ [10]"
    by (cases s) auto
  moreover have "is_space 10" by (simp add: is_space_def)
  moreover from assms(1,3) have "dropWhile is_space (rev s) = rev s"
    by (cases "rev s") (auto simp: last_rev [symmetric] hd_rev)
  ultimately show ?thesis by (simp add: py_strip_def)
qed

lemma escape_char_no_newline:
  "10 \<notin> set (escape_char c) \<and> 13 \<notin> set (escape_char c)"
  by (auto simp: escape_char_def hex_digit_def)

lemma encode_basestring_no_newline:
  "10 \<notin> set (encode_basestring s) \<and> 13 \<notin> set (encode_basestring s)"
  using escape_char_no_newline by (auto simp: encode_basestring_def)

lemma json_dumps_entry_no_newline:
  "10 \<notin> set (json_dumps_entry t) \<and> 13 \<notin> set (json_dumps_entry t)"
  using encode_basestring_no_newline by (auto simp: json_dumps_entry_def)

lemma json_dumps_entry_ends:
  "json_dumps_entry t \<noteq> [] \<and> hd (json_dumps_entry t) = 123 \<and> last (json_dumps_entry t) = 125"
  by (simp add: json_dumps_entry_def)

lemma nonblank_append: "nonblank (xs @ ys) = nonblank xs @ nonblank ys"
  by (simp add: nonblank_def)

lemma soul_records_append_line:
  assumes "terminated content"
  shows "soul_records (content @ json_dumps_entry t @ [10]) = soul_records content @ [json_dumps_entry t]"
proof -
  let ?line = "json_dumps_entry t"
  have ne: "?line @ [10] \<noteq> []" "hd (?line @ [10]) \<noteq> 10"
    using json_dumps_entry_ends [of t] by (simp_all add: hd_append)
  have "universal_newlines (content @ ?line @ [10]) =
          universal_newlines content @ universal_newlines (?line @ [10])"
    using ne by (rule universal_newlines_append)
  also have "universal_newlines (?line @ [10]) = ?line @ [10]"
    using json_dumps_entry_no_newline [of t] by (simp add: universal_newlines_no_cr)
  finally have "py_lines (universal_newlines (content @ ?line @ [10])) =
      py_lines (universal_newlines content) @ py_lines (?line @ [10])"
    using universal_newlines_terminated [OF assms] by (simp add: py_lines_append)
  also have "py_lines (?line @ [10]) = [?line @ [10]]"
    using json_dumps_entry_no_newline [of t] by (simp add: py_lines_single)
  finally have "soul_records (content @ ?line @ [10]) = soul_records content @ nonblank [?line @ [10]]"
    by (simp add: soul_records_def nonblank_append)
  moreover have "py_strip (?line @ [10]) = ?line"
    using json_dumps_entry_ends [of t] by (intro py_strip_line) (simp_all add: is_space_def)
  ultimately show ?thesis
    using json_dumps_entry_ends [of t] by (simp add: nonblank_def)
qed

lemma soul_records_first_line:
  "soul_records (json_dumps_entry t @ [10]) = [json_dumps_entry t]"
  using soul_records_append_line [of "[]" t] by (simp add: terminated_def soul_records_def nonblank_def)


lemma aligned_positions:
  "aligned embedding st \<Longrightarrow>
     ntotal (index st) = length (memories st) \<and>
     (\<forall>i < length (memories st). xb (index st) ! i = embedding (memories st ! i))"
  by (simp add: aligned_def ntotal_def)

lemma maybe_append_soul_log:
  assumes "soul_terminated (env st)" and "soul_writable (env st)"
  shows "log_length (env (snd (maybe_append_soul encode prompt reply st))) = log_length (env st) + 1 \<and>
         soul_terminated (env (snd (maybe_append_soul encode prompt reply st)))"
proof -
  let ?line = "json_dumps_entry (entry_text prompt reply)"
  let ?w = "emit (Encode [JStr (entry_text prompt reply)]) (soul_append (?line @ [10]) (env st))"
  have env': "env (snd (maybe_append_soul encode prompt reply st)) = ?w"
    using assms(2) by (simp add: maybe_append_soul_def Let_def split: sum.splits)
  have "log_length ?w = log_length (env st) + 1"
  proof (cases "soul_file (env st)")
    case None
    then show ?thesis
      by (simp add: log_length_def emit_def soul_append_def soul_records_first_line)
  next
    case (Some content)
    with assms(1) have "terminated content" by (simp add: soul_terminated_def)
    with Some show ?thesis
      by (simp add: log_length_def emit_def soul_append_def soul_records_append_line)
  qed
  moreover have "soul_terminated ?w"
    by (simp add: soul_terminated_def terminated_def emit_def soul_append_def)
  ultimately show ?thesis by (simp add: env')
qed

lemma maybe_append_soul_synchronized:
  assumes sync: "synchronized embedding st"
    and contract: "\<And>ts vs. encode ts = Inr vs \<Longrightarrow> vs = map embedding ts"
    and ok: "maybe_append_soul encode prompt reply st = (Inr (), st')"
  shows "synchronized embedding st' \<and>
         memories st' = memories st @ [JStr (entry_text prompt reply)] \<and>
         xb (index st') = xb (index st) @ [embedding (JStr (entry_text prompt reply))]"
proof -
  let ?t = "JStr (entry_text prompt reply)"
  from ok have writable: "soul_writable (env st)"
    by (cases "soul_writable (env st)") (simp_all add: maybe_append_soul_def)
  from ok writable obtain vec idx where enc: "encode [?t] = Inr vec"
    and add: "faiss_add (index st) vec = Inr idx"
    and idx: "index st' = idx" and mem: "memories st' = memories st @ [?t]"
    by (auto simp: maybe_append_soul_def Let_def split: sum.splits)
  from contract [OF enc] have vec: "vec = [embedding ?t]" by simp
  from add have "xb idx = xb (index st) @ vec"
    by (auto simp: faiss_add_def split: if_splits)
  with vec idx have xb': "xb (index st') = xb (index st) @ [embedding ?t]" by simp
  from sync have "xb (index st) = map embedding (memories st)"
    by (simp add: synchronized_def aligned_def)
  with xb' mem have al: "aligned embedding st'" by (simp add: aligned_def)
  from sync have closed: "soul_terminated (env st)"
    and len: "log_length (env st) = length (memories st)"
    by (simp_all add: synchronized_def)
  from maybe_append_soul_log [OF closed writable, of encode prompt reply] ok
  have "log_length (env st') = log_length (env st) + 1" "soul_terminated (env st')"
    by simp_all
  with al len mem xb' show ?thesis by (simp add: synchronized_def)
qed

lemma append_all_synchronized:
  assumes contract: "\<And>ts vs. encode ts = Inr vs \<Longrightarrow> vs = map embedding ts"
  shows "synchronized embedding st \<Longrightarrow> append_all encode xs st = (Inr (), st') \<Longrightarrow>
           synchronized embedding st' \<and>
           length (memories st') = length (memories st) + length xs"
proof (induction xs arbitrary: st)
  case Nil
  then show ?case by simp
next
  case (Cons x xs)
  obtain prompt reply where x: "x = (prompt, reply)" by (cases x)
  from Cons.prems(2) x obtain st1 where
    one: "maybe_append_soul encode prompt reply st = (Inr (), st1)"
    and rest: "append_all encode xs st1 = (Inr (), st')"
    by (auto split: prod.splits sum.splits)
  from maybe_append_soul_synchronized [OF Cons.prems(1) contract one]
  have s1: "synchronized embedding st1" and m1: "length (memories st1) = length (memories st) + 1"
    by simp_all
  from Cons.IH [OF s1 rest] m1 show ?case by simp
qed

lemma append_all_prefix:
  "append_all encode (xs @ ys) st = (Inr (), st') \<Longrightarrow>
     \<exists>st1. append_all encode xs st = (Inr (), st1) \<and> append_all encode ys st1 = (Inr (), st')"
proof (induction xs arbitrary: st)
  case Nil
  then show ?case by simp
next
  case (Cons x xs)
  obtain prompt reply where x: "x = (prompt, reply)" by (cases x)
  from Cons.prems x obtain st0 where
    one: "maybe_append_soul encode prompt reply st = (Inr (), st0)"
    and rest: "append_all encode (xs @ ys) st0 = (Inr (), st')"
    by (auto split: prod.splits sum.splits)
  from Cons.IH [OF rest] one x show ?case by simp
qed

lemma alignment_at_every_point:
  assumes "\<And>ts vs. encode ts = Inr vs \<Longrightarrow> vs = map embedding ts"
    and "synchronized embedding st"
    and "append_all encode xs st = (Inr (), st')"
    and "n \<le> length xs"
  shows "\<exists>st1. append_all encode (take n xs) st = (Inr (), st1) \<and>
           ntotal (index st1) = length (memories st1) \<and>
           log_length (env st1) = length (memories st1) \<and>
           length (memories st1) = length (memories st) + n \<and>
           (\<forall>i < length (memories st1). xb (index st1) ! i = embedding (memories st1 ! i))"
proof -
  from assms(3) have "append_all encode (take n xs @ drop n xs) st = (Inr (), st')" by simp
  from append_all_prefix [OF this] obtain st1 where
    st1: "append_all encode (take n xs) st = (Inr (), st1)" by blast
  from append_all_synchronized [OF assms(1) assms(2) st1] assms(4)
  have "synchronized embedding st1" "length (memories st1) = length (memories st) + n"
    by simp_all
  with st1 aligned_positions [of embedding st1] show ?thesis
    by (auto simp: synchronized_def)
qed

lemma rebuild_index_aligned:
  assumes "\<And>ts vs. encode ts = Inr vs \<Longrightarrow> vs = map embedding ts"
    and "rebuild_index encode texts w = (Inr idx, w')"
  shows "xb idx = map embedding texts"
proof (cases "texts = []")
  case True
  with assms(2) show ?thesis by (auto simp: rebuild_index_def IndexFlatIP_def)
next
  case False
  with assms(2) obtain emb n where "encode texts = Inr emb"
    and "faiss_add (IndexFlatIP n) emb = Inr idx"
    by (auto simp: rebuild_index_def Let_def split: sum.splits)
  with assms(1) show ?thesis
    by (auto simp: faiss_add_def IndexFlatIP_def split: if_splits)
qed


lemma sample_encode_contract:
  "sample_encode ts = Inr vs \<Longrightarrow> vs = map sample_embed ts"
  by (auto simp: sample_encode_def)

lemma store_two_synchronized: "synchronized sample_embed store_two"
  by (simp add: synchronized_def aligned_def log_length_def soul_terminated_def terminated_def
        soul_records_def nonblank_def sample_defs)

lemma store_two_append_returns:
  "fst (append_all sample_encode [(ping, pong), (pong, ping)] store_two) = Inr ()"
  by (simp add: maybe_append_soul_def faiss_add_def soul_append_def emit_def Let_def sample_defs)

lemma store_two_after_appends:
  "\<exists>st1. append_all sample_encode [(ping, pong), (pong, ping)] store_two = (Inr (), st1) \<and>
     ntotal (index st1) = 4 \<and> log_length (env st1) = 4 \<and> length (memories st1) = 4"
proof -
  obtain st' where r: "append_all sample_encode [(ping, pong), (pong, ping)] store_two = (Inr (), st')"
    using store_two_append_returns
    by (cases "append_all sample_encode [(ping, pong), (pong, ping)] store_two") auto
  from alignment_at_every_point [OF sample_encode_contract store_two_synchronized r, of 2]
  show ?thesis by (auto simp: store_two_def texts_two_def)
qed

subsection \<open>Embedding failure\<close>

text \<open>
  C3, as stated, fails. With the embedder unavailable, the append raises after the record
  has been written: the log then holds three records while the index and the in-memory
  texts still hold two. Nothing is rolled back.
\<close>

theorem append_embedding_failure_counterexample:
  "fst (maybe_append_soul failing_encode ping pong store_two) = Inl EmbedderError \<and>
   log_length (env store_two) = 2 \<and>
   log_length (env (snd (maybe_append_soul failing_encode ping pong store_two))) = 3 \<and>
   ntotal (index (snd (maybe_append_soul failing_encode ping pong store_two))) = 2 \<and>
   length (memories (snd (maybe_append_soul failing_encode ping pong store_two))) = 2"
  by (simp add: maybe_append_soul_def soul_append_def emit_def Let_def log_length_def soul_records_def
        nonblank_def ntotal_def sample_defs)

text \<open>
  C3, amended. If embedding the new text fails, \<open>maybe_append_soul\<close> raises the embedder's
  error with the index and the in-memory texts unchanged, and the log write is not undone:
  when the soul file is absent, empty or ends with a line terminator, the log holds one
  record more than before, its last line again terminated, so that the log is one record
  ahead of the index. The index is never changed before the log write: when the soul file
  cannot be opened for appending, the call raises with the whole state unchanged.
\<close>

theorem append_embedding_failure:
  assumes "encode [JStr (entry_text prompt reply)] = Inl e"
  shows "(soul_writable (env st) \<longrightarrow>
            fst (maybe_append_soul encode prompt reply st) = Inl e \<and>
            index (snd (maybe_append_soul encode prompt reply st)) = index st \<and>
            memories (snd (maybe_append_soul encode prompt reply st)) = memories st) \<and>
         (soul_writable (env st) \<and> soul_terminated (env st) \<longrightarrow>
            log_length (env (snd (maybe_append_soul encode prompt reply st))) =
              log_length (env st) + 1 \<and>
            soul_terminated (env (snd (maybe_append_soul encode prompt reply st)))) \<and>
         (\<not> soul_writable (env st) \<longrightarrow>
            maybe_append_soul encode prompt reply st = (Inl OSError, st))"
proof -
  have "fst (maybe_append_soul encode prompt reply st) = Inl e \<and>
        index (snd (maybe_append_soul encode prompt reply st)) = index st \<and>
        memories (snd (maybe_append_soul encode prompt reply st)) = memories st"
    if "soul_writable (env st)"
    using that assms by (simp add: maybe_append_soul_def Let_def)
  moreover
  have "log_length (env (snd (maybe_append_soul encode prompt reply st))) = log_length (env st) + 1 \<and>
        soul_terminated (env (snd (maybe_append_soul encode prompt reply st)))"
    if "soul_writable (env st)" "soul_terminated (env st)"
    using that by (intro maybe_append_soul_log)
  moreover
  have "maybe_append_soul encode prompt reply st = (Inl OSError, st)"
    if "\<not> soul_writable (env st)"
    using that by (simp add: maybe_append_soul_def)
  ultimately show ?thesis by blast
qed

theorem append_embedding_failure_witness:
  "failing_encode [JStr (entry_text ping pong)] = Inl EmbedderError \<and>
   soul_writable (env store_two) \<and> soul_terminated (env store_two) \<and>
   log_length (env store_two) = 2 \<and>
   fst (maybe_append_soul failing_encode ping pong store_two) = Inl EmbedderError \<and>
   index (snd (maybe_append_soul failing_encode ping pong store_two)) = index_two \<and>
   memories (snd (maybe_append_soul failing_encode ping pong store_two)) = texts_two \<and>
   log_length (env (snd (maybe_append_soul failing_encode ping pong store_two))) = 3 \<and>
   soul_terminated (env (snd (maybe_append_soul failing_encode ping pong store_two)))"
proof -
  have e: "failing_encode [JStr (entry_text ping pong)] = Inl EmbedderError"
    by (simp add: failing_encode_def)
  have w: "soul_writable (env store_two)"
    by (simp add: store_two_def world_with_soul_def fresh_world_def)
  have c: "soul_terminated (env store_two)"
    by (simp add: soul_terminated_def terminated_def sample_defs)
  have n: "log_length (env store_two) = 2"
    by (simp add: log_length_def soul_records_def nonblank_def sample_defs)
  have i: "index store_two = index_two" and m: "memories store_two = texts_two"
    by (simp_all add: store_two_def)
  from append_embedding_failure [of failing_encode ping pong EmbedderError store_two, OF e] w c n i m e
  show ?thesis by simp
qed

subsection \<open>The state after start-up\<close>

text \<open>
  Start-up leaves as many in-memory texts as the log has records; after a rebuild the
  index holds the embeddings of those texts, position by position.
\<close>

lemma rebuild_index_soul_file:
  "rebuild_index encode texts w = (r, w') \<Longrightarrow> soul_file w' = soul_file w"
  by (auto simp: rebuild_index_def Let_def emit_def split: if_splits sum.splits)

lemma load_texts_log_length:
  assumes "load_texts loads w = (Inr texts, w1)"
  shows "log_length w1 = length texts"
proof (cases "soul_file w")
  case None
  with assms show ?thesis by (auto simp: load_texts_def log_length_def emit_def)
next
  case (Some content)
  from load_texts_records [OF Some assms] have "length (soul_records content) = length texts"
    by (rule list_all2_lengthD)
  with load_texts_world [OF assms] Some show ?thesis by (simp add: log_length_def)
qed

lemma startup_log_length:
  assumes "startup loads encode w = Inr st"
  shows "log_length (env st) = length (memories st)"
proof -
  from assms obtain idx texts w' where
    r: "load_or_build_index loads encode w = (Inr (idx, texts), w')"
    and st: "st = \<lparr>env = w', index = idx, memories = texts\<rparr>"
    by (auto simp: startup_def split: prod.splits sum.splits)
  from r obtain w1 where t: "load_texts loads w = (Inr texts, w1)"
    and w': "w' = w1 \<or> (\<exists>r. rebuild_index encode texts w1 = (r, w'))"
    by (auto simp: load_or_build_index_def Let_def
             split: prod.splits sum.splits option.splits if_splits)
  from w' have "soul_file w' = soul_file w1" by (auto dest: rebuild_index_soul_file)
  then have "log_length w' = log_length w1" by (simp add: log_length_def)
  with load_texts_log_length [OF t] st show ?thesis by simp
qed

lemma startup_rebuild_aligned:
  assumes contract: "\<And>ts vs. encode ts = Inr vs \<Longrightarrow> vs = map embedding ts"
    and "load_texts loads w = (Inr texts, w1)"
    and "\<not> reuse_condition w (length texts)"
    and "startup loads encode w = Inr st"
  shows "aligned embedding st"
proof -
  from assms(4) obtain idx texts' w' where
    r: "load_or_build_index loads encode w = (Inr (idx, texts'), w')"
    and st: "st = \<lparr>env = w', index = idx, memories = texts'\<rparr>"
    by (auto simp: startup_def split: prod.splits sum.splits)
  from reuse_condition_load_texts [OF assms(2)] assms(3)
  have no: "\<not> reuse_condition w1 (length texts)" by simp
  from r assms(2) no
  have "texts' = texts \<and> rebuild_index encode texts w1 = (Inr idx, w')"
    by (auto simp: load_or_build_index_def reuse_condition_def Let_def
             split: sum.splits option.splits prod.splits if_splits)
  with rebuild_index_aligned [OF contract] st show ?thesis
    by (auto simp: aligned_def)
qed

section \<open>Retrieval\<close>

text \<open>
  C8. When the store holds no memories, \<open>retrieve_memories\<close> returns the empty list for
  every query and every \<open>k\<close>, whatever the embedder and the index would do, and leaves the
  state as it was: no call of the embedder is recorded.
\<close>

theorem retrieve_empty_store:
  "memories st = [] \<Longrightarrow> retrieve_memories encode search query k st = (Inr [], st)"
  by (simp add: retrieve_memories_def)

theorem retrieve_empty_store_witness:
  "memories empty_store = [] \<and>
   retrieve_memories failing_encode stored_order_search (py ''anything'') 5 empty_store =
     (Inr [], empty_store)"
  using retrieve_empty_store [of empty_store failing_encode stored_order_search "py ''anything''" 5]
  by (simp add: empty_store_def)

lemma pick_memories_length:
  "pick_memories mem labels = Inr ms \<Longrightarrow> length ms \<le> length labels"
  by (induction labels arbitrary: ms) (auto split: if_splits sum.splits)

lemma retrieve_at_most_k:
  assumes "\<And>idx q ls. search idx q k = Inr ls \<Longrightarrow> length ls = nat k"
    and "retrieve_memories encode search query k st = (Inr ms, st')"
  shows "length ms \<le> nat k"
  using assms(2)
  by (auto simp: retrieve_memories_def Let_def split: if_splits sum.splits
           dest!: pick_memories_length assms(1))

lemma pick_memories_nonnegative:
  "list_all (\<lambda>i. 0 \<le> i) labels \<Longrightarrow>
     pick_memories mem labels =
       Inr (map (\<lambda>i. mem ! nat i) (filter (\<lambda>i. i < int (length mem)) labels))"
  by (induction labels) (auto simp: py_index_def)

lemma pick_memories_negative:
  "- int (length mem) \<le> i \<Longrightarrow> i < 0 \<Longrightarrow> pick_memories mem rest = Inr ms \<Longrightarrow>
     pick_memories mem (i # rest) = Inr (mem ! nat (int (length mem) + i) # ms)"
  by (simp add: py_index_def)

lemma pick_memories_below_range:
  "i < - int (length mem) \<Longrightarrow> pick_memories mem (i # rest) = Inl IndexError"
  by (simp add: py_index_def)

lemma stored_order_search_length:
  "stored_order_search idx q k = Inr ls \<Longrightarrow> length ls = nat k"
  by (auto simp: stored_order_search_def split: if_splits)

lemma replicate_3: "replicate 3 x = [x, x, x]"
  by (simp add: numeral_3_eq_3)

text \<open>
  C4 at its failing input. With two memories stored and \<open>k = 5\<close>, the search pads its
  labels with \<open>-1\<close>; each padding label passes the test \<open>i < len(memories)\<close> and selects
  \<open>memories[-1]\<close>, so five results are returned from a store of two.
\<close>

theorem retrieve_more_than_stored:
  "fst (retrieve_memories sample_encode stored_order_search (py ''hi'') 5 store_two) =
     Inr [JStr (py ''hi''), JStr (py ''hello''), JStr (py ''hello''), JStr (py ''hello''), JStr (py ''hello'')] \<and>
   length (memories store_two) = 2"
  by (simp add: retrieve_memories_def Let_def ntotal_def emit_def replicate_3 sample_defs)

text \<open>
  C5 at its failing input. With four memories stored and \<open>k = 5\<close> the labels are
  \<open>0, 1, 2, 3, -1\<close>; the label \<open>-1\<close> is not skipped but answered with the last memory,
  which is returned a second time.
\<close>

theorem retrieve_padding_label_not_skipped:
  "stored_order_search (index store_mixed) [sample_embed (JStr (py ''hi''))] 5 = Inr [0, 1, 2, 3, - 1] \<and>
   fst (retrieve_memories sample_encode stored_order_search (py ''hi'') 5 store_mixed) =
     Inr [JStr (py ''hi''), JStr (py ''hello''), JStr [], JStr (py ''{bad''), JStr (py ''{bad'')]"
  by (simp add: retrieve_memories_def Let_def ntotal_def emit_def sample_defs)

end
